theory Spec2Isabelle
  imports Main "HOL-Library.Word"
begin

section \<open>The feed document model\<close>

text \<open>
  The repository holds two revisions of \<open>rss.go\<close>.  The later one has the stop channel,
  the notifier registry and a \<open>Serve\<close> that returns an error; it is the one that the
  example of the README calls, and it is the one modelled here, together with
  \<open>logger.go\<close> and the type declarations.  The earlier revision, \<open>src/rss.go\<close>, shares
  \<open>Feed\<close>, \<open>FeedFromFile\<close> and \<open>FeedFromURL\<close> with it; its \<open>latestItem\<close> and \<open>Update\<close>
  are modelled in a section of their own.  The declared struct \<open>RSS\<close> is that of the
  earlier revision: in place of its callback field the later revision uses a list
  \<open>rssUpdateNotifiers\<close> and a mutex \<open>mu\<close>.
\<close>

text \<open>
  Go strings are byte sequences: \<open>string\<close>.  Go's \<open>int\<close> and \<open>time.Duration\<close> are
  64-bit two's complement integers: \<open>64 word\<close>, read with \<open>sint\<close>.  A \<open>time.Time\<close> is
  an absolute instant, modelled as the number of nanoseconds since
  1970-01-01T00:00:00Z; \<open>RFC822\<close> is declared as \<open>type RFC822 time.Time\<close>.
  An \<open>error\<close> value is represented by its message.  A nil slice and an empty slice
  are both the empty list (the code only ever tests \<open>len\<close> or \<open>!= nil\<close> on slices
  that are nil or non-empty).  A nilable pointer to a value that is never written
  through is an \<open>option\<close>.
\<close>

type_synonym Time = int
type_synonym RFC822 = Time
type_synonym Duration = "64 word"
type_synonym error = string

datatype RSSCategory = RSSCategory string string
datatype RSSCloud = RSSCloud string "64 word" string string string
datatype RSSImage = RSSImage string string string "64 word" "64 word" string
datatype RSSTextInput = RSSTextInput string string string string
datatype RSSEnclosure = RSSEnclosure string "64 word" string
datatype RSSSource = RSSSource string string

record RSSItem =
  Item_Title :: string
  Item_Link :: string
  Item_Description :: string
  Author :: string
  Item_Categories :: "RSSCategory list"
  Comments :: string
  Enclosure :: "RSSEnclosure option"
  GUID :: string
  Item_PubDate :: "RFC822 option"
  Source :: "RSSSource option"

record RSSChannel =
  Title :: string
  Link :: string
  Description :: string
  Language :: string
  Copyright :: string
  ManagingEditor :: string
  WebMaster :: string
  PubDate :: "RFC822 option"
  LastBuildDate :: "RFC822 option"
  Categories :: "RSSCategory list"
  Generator :: string
  Docs :: string
  Cloud :: "RSSCloud option"
  TTL :: "64 word"
  ImageR :: "RSSImage option"
  Rating :: string
  TextInput :: "RSSTextInput option"
  SkipHours :: "64 word list"
  SkipDays :: "64 word list"
  Items :: "RSSItem list"

text \<open>
  A registered callback is opaque to the package; it is represented by an identifier.
  The mutex \<open>mu\<close> of the struct is not represented.
\<close>

type_synonym RSSUpdateNotifier = nat

record RSS =
  Version :: string
  Channel :: RSSChannel
  origin :: string
  source :: string
  lastUpdateAt :: Time
  rssUpdateNotifiers :: "RSSUpdateNotifier list"

section \<open>The outside world\<close>

text \<open>
  Everything a call obtains from outside the package is an oracle of the environment:
  the log level variable, the transport (\<open>http.Get\<close> yields an error or a response
  whose body \<open>ioutil.ReadAll\<close> reads to bytes or to an error), the file system, the
  decoder of \<open>encoding/xml\<close> (which fills the exported fields \<open>Version\<close> and
  \<open>Channel\<close>), and the clock (\<open>Now env k\<close> is what the \<open>k\<close>-th call of
  \<open>time.Now\<close> within one operation returns).
\<close>

record env =
  LogLevel :: int
  http_Get :: "string \<Rightarrow> error + (error + string)"
  ReadFile :: "string \<Rightarrow> error + string"
  Decode :: "string \<Rightarrow> error + (string \<times> RSSChannel)"
  Now :: "nat \<Rightarrow> Time"

text \<open>
  What the package does to the outside: lines handed to its loggers, and goroutines
  started with \<open>go f(items)\<close>, both in program order.
\<close>

record world =
  logged :: "string list"
  spawned :: "(RSSUpdateNotifier \<times> RSSItem list) list"

datatype panic = SliceBoundsOutOfRange | IndexOutOfRange | NilDereference | NonPositiveInterval

datatype 'a exec = Panics panic | Returns 'a

section \<open>logger.go\<close>

definition Ltrace :: int where "Ltrace = 0"
definition Ldebug :: int where "Ldebug = 1"
definition Linfo :: int where "Linfo = 2"
definition Lwarning :: int where "Lwarning = 3"
definition Lerror :: int where "Lerror = 4"

definition logTrace :: "env \<Rightarrow> string \<Rightarrow> world \<Rightarrow> world" where
  "logTrace env v w =
     (if LogLevel env = Ltrace then w\<lparr>logged := logged w @ [''[TRACE] '' @ v]\<rparr> else w)"

text \<open>\<open>fmt.Sprintln\<close> separates its operands by blanks and ends the line.\<close>

definition logDebugln :: "env \<Rightarrow> string \<Rightarrow> error \<Rightarrow> world \<Rightarrow> world" where
  "logDebugln env v err w =
     (if LogLevel env \<le> Ldebug
      then w\<lparr>logged := logged w @ [''[DEBUG] '' @ '' '' @ v @ '' '' @ err @ [CHR 0x0A]]\<rparr>
      else w)"

definition logErr :: "env \<Rightarrow> error \<Rightarrow> world \<Rightarrow> world" where
  "logErr env err w =
     (if LogLevel env \<le> Lerror then w\<lparr>logged := logged w @ [''[ERROR] '' @ err]\<rparr> else w)"

section \<open>The document parser\<close>

text \<open>
  \<open>strings.Trim(s, cutset)\<close> of the standard library, for a cutset of ASCII bytes:
  the longest prefix and the longest suffix made of cutset bytes are removed.
\<close>

definition Trim :: "string \<Rightarrow> string \<Rightarrow> string" where
  "Trim s cutset =
     rev (dropWhile (\<lambda>c. c \<in> set cutset) (rev (dropWhile (\<lambda>c. c \<in> set cutset) s)))"

definition cutset :: string where
  "cutset = [CHR '' '', CHR 0x09, CHR 0x0A]"

definition trimItem :: "RSSItem \<Rightarrow> RSSItem" where
  "trimItem item =
     item\<lparr>Item_Title := Trim (Item_Title item) cutset,
          Item_Description := Trim (Item_Description item) cutset\<rparr>"

definition trimChannel :: "RSSChannel \<Rightarrow> RSSChannel" where
  "trimChannel c =
     c\<lparr>Title := Trim (Title c) cutset,
       Description := Trim (Description c) cutset,
       Copyright := Trim (Copyright c) cutset,
       Items := map trimItem (Items c)\<rparr>"

definition Feed :: "env \<Rightarrow> string \<Rightarrow> world \<Rightarrow> (error + RSS) \<times> world" where
  "Feed env b w =
     (let w1 = logTrace env ''feed()'' w in
      case Decode env b of
        Inl err \<Rightarrow> (Inl err, logErr env err w1)
      | Inr (v, c) \<Rightarrow>
          (Inr \<lparr>Version = v, Channel = trimChannel c, origin = b, source = [],
                lastUpdateAt = Now env 0, rssUpdateNotifiers = []\<rparr>, w1))"

text \<open>A string carries no leading and no trailing space, tab or newline.\<close>

definition trimmed :: "string \<Rightarrow> bool" where
  "trimmed s = (s = [] \<or> (hd s \<notin> set cutset \<and> last s \<notin> set cutset))"

section \<open>The acquisition layer\<close>

definition FeedFromFile :: "env \<Rightarrow> string \<Rightarrow> world \<Rightarrow> (error + RSS) \<times> world" where
  "FeedFromFile env filename w =
     (case ReadFile env filename of
        Inl err \<Rightarrow> (Inl err, logErr env err w)
      | Inr b \<Rightarrow>
          (case Feed env b w of
             (Inl err, w1) \<Rightarrow> (Inl err, logErr env err w1)
           | (Inr rss, w1) \<Rightarrow> (Inr (rss\<lparr>source := filename\<rparr>), w1)))"

definition FeedFromURL :: "env \<Rightarrow> string \<Rightarrow> world \<Rightarrow> (error + RSS) \<times> world" where
  "FeedFromURL env url w =
     (case http_Get env url of
        Inl err \<Rightarrow> (Inl err, logErr env err w)
      | Inr body \<Rightarrow>
          (case body of
             Inl err \<Rightarrow> (Inl err, logErr env err w)
           | Inr b \<Rightarrow>
               (case Feed env b w of
                  (Inl err, w1) \<Rightarrow> (Inl err, logErr env err w1)
                | (Inr rss, w1) \<Rightarrow> (Inr (rss\<lparr>source := url\<rparr>), w1))))"

text \<open>
  The source-kind dispatch, written inline in both \<open>Update\<close> and the package-level
  \<open>Serve\<close>: \<open>if source[:4] == "http" { FeedFromURL(source) } else { FeedFromFile(source) }\<close>.
  The slice expression \<open>source[:4]\<close> panics when the string has fewer than four bytes.
\<close>

definition acquire :: "env \<Rightarrow> string \<Rightarrow> world \<Rightarrow> (error + RSS) exec \<times> world" where
  "acquire env src w =
     (if length src < 4 then (Panics SliceBoundsOutOfRange, w)
      else if take 4 src = ''http''
      then (case FeedFromURL env src w of (r, w1) \<Rightarrow> (Returns r, w1))
      else (case FeedFromFile env src w of (r, w1) \<Rightarrow> (Returns r, w1)))"

section \<open>The update and diff engine\<close>

text \<open>
  \<open>func (r RFC822) After(t *RFC822) bool { return time.Time(r).After(time.Time(*t)) }\<close>:
  the argument is dereferenced.
\<close>

definition After :: "RFC822 \<Rightarrow> RFC822 option \<Rightarrow> bool exec" where
  "After r t = (case t of None \<Rightarrow> Panics NilDereference | Some u \<Rightarrow> Returns (u < r))"

text \<open>
  The call \<open>p.After(t)\<close> on a \<open>p\<close> of type \<open>*RFC822\<close>, as in
  \<open>items[i].PubDate.After(latestItem.PubDate)\<close>: \<open>After\<close> has a value receiver, so the
  call is \<open>(*p).After(t)\<close>.
\<close>

definition ptr_After :: "RFC822 option \<Rightarrow> RFC822 option \<Rightarrow> bool exec" where
  "ptr_After p t = (case p of None \<Rightarrow> Panics NilDereference | Some r \<Rightarrow> After r t)"

text \<open>The loop of \<open>latestItem\<close> over \<open>items[1:]\<close>, with the current \<open>latestItem\<close>.\<close>

fun latestLoop :: "RSSItem \<Rightarrow> RSSItem list \<Rightarrow> RSSItem exec" where
  "latestLoop latest [] = Returns latest"
| "latestLoop latest (item # items) =
     (case ptr_After (Item_PubDate item) (Item_PubDate latest) of
        Panics p \<Rightarrow> Panics p
      | Returns b \<Rightarrow> latestLoop (if b then item else latest) items)"

definition latestItem :: "RSS \<Rightarrow> RSSItem option exec" where
  "latestItem rss =
     (case Items (Channel rss) of
        [] \<Rightarrow> Returns None
      | item # items \<Rightarrow>
          (case latestLoop item items of
             Panics p \<Rightarrow> Panics p
           | Returns latest \<Rightarrow> Returns (Some latest)))"

text \<open>The loop of \<open>Update\<close> that appends to \<open>newItems\<close>.\<close>

fun newerLoop :: "RFC822 option \<Rightarrow> RSSItem list \<Rightarrow> RSSItem list \<Rightarrow> RSSItem list exec" where
  "newerLoop t [] newItems = Returns newItems"
| "newerLoop t (item # items) newItems =
     (case ptr_After (Item_PubDate item) t of
        Panics p \<Rightarrow> Panics p
      | Returns b \<Rightarrow> newerLoop t items (if b then newItems @ [item] else newItems))"

text \<open>
  \<open>Update\<close> returns \<open>(newItems, err)\<close>, here \<open>Inr newItems\<close> or \<open>Inl err\<close>, or panics;
  the feed behind the receiver and the world are returned as they are at that point.
\<close>

definition Update :: "env \<Rightarrow> RSS \<Rightarrow> world \<Rightarrow> (error + RSSItem list) exec \<times> RSS \<times> world" where
  "Update env rss w =
     (let w1 = logTrace env ''rss.Update()'' w in
      case latestItem rss of
        Panics p \<Rightarrow> (Panics p, rss, w1)
      | Returns latest \<Rightarrow>
          if source rss = [] then (Returns (Inl ''empty rss.source''), rss, w1)
          else
            (case acquire env (source rss) w1 of
               (Panics p, w2) \<Rightarrow> (Panics p, rss, w2)
             | (Returns (Inl err), w2) \<Rightarrow> (Returns (Inl err), rss, logErr env err w2)
             | (Returns (Inr rss2), w2) \<Rightarrow>
                 (let rss' = rss\<lparr>Channel := (Channel rss)\<lparr>Items := Items (Channel rss2)\<rparr>,
                                 lastUpdateAt := Now env 1\<rparr>
                  in case latest of
                       None \<Rightarrow> (Returns (Inr []), rss', w2)
                     | Some l \<Rightarrow>
                         (case newerLoop (Item_PubDate l) (Items (Channel rss')) [] of
                            Panics p \<Rightarrow> (Panics p, rss', w2)
                          | Returns newItems \<Rightarrow> (Returns (Inr newItems), rss', w2)))))"

section \<open>The polling scheduler and the notifier registry\<close>

definition Minute :: Duration where
  "Minute = 60000000000"

definition DefaultTTL :: Duration where
  "DefaultTTL = 20 * Minute"

text \<open>The interval that \<open>Serve\<close> hands to \<open>time.NewTicker\<close>.\<close>

definition tickerInterval :: "RSS \<Rightarrow> Duration \<Rightarrow> Duration" where
  "tickerInterval rss ttl =
     (if ttl = 0
      then (if 0 <s TTL (Channel rss) then TTL (Channel rss) * Minute else DefaultTTL)
      else ttl)"

text \<open>
  What the \<open>select\<close> of the loop receives, in order: a value on \<open>stopServe\<close>, or a tick
  of the ticker together with the outside world as it is during that tick.
\<close>

datatype event = Stop | Tick env

text \<open>
  \<open>Serving\<close>: the loop waits in its \<open>select\<close>.  \<open>Stopped None\<close>: \<open>Serve\<close> has returned
  \<open>nil\<close>.  \<open>Stopped (Some err)\<close>: it has returned \<open>err\<close>.  \<open>Crashed p\<close>: it panicked.
\<close>

datatype status = Serving | Stopped "error option" | Crashed panic

definition dispatch :: "RSS \<Rightarrow> RSSItem list \<Rightarrow> world \<Rightarrow> world" where
  "dispatch rss newItems w =
     w\<lparr>spawned := spawned w @ map (\<lambda>f. (f, newItems)) (rssUpdateNotifiers rss)\<rparr>"

text \<open>The result carries the events that the loop has not received.\<close>

fun serveLoop :: "RSS \<Rightarrow> world \<Rightarrow> event list \<Rightarrow> status \<times> RSS \<times> world \<times> event list" where
  "serveLoop rss w [] = (Serving, rss, w, [])"
| "serveLoop rss w (Stop # es) = (Stopped None, rss, w, es)"
| "serveLoop rss w (Tick env # es) =
     (case Update env rss w of
        (Panics p, rss', w') \<Rightarrow> (Crashed p, rss', w', es)
      | (Returns (Inl err), rss', w') \<Rightarrow> (Stopped (Some err), rss', logErr env err w', es)
      | (Returns (Inr newItems), rss', w') \<Rightarrow>
          serveLoop rss' (if newItems \<noteq> [] then dispatch rss' newItems w' else w') es)"

text \<open>
  The method \<open>(rss *RSS) Serve(ttl)\<close>.  \<open>time.NewTicker\<close> panics on an interval that is
  not positive.
\<close>

definition RSS_Serve :: "RSS \<Rightarrow> Duration \<Rightarrow> world \<Rightarrow> event list \<Rightarrow>
    status \<times> RSS \<times> world \<times> event list" where
  "RSS_Serve rss ttl w es =
     (if tickerInterval rss ttl \<le>s 0 then (Crashed NonPositiveInterval, rss, w, es)
      else serveLoop rss w es)"

definition RegisterRSSUpdateNotifier :: "RSS \<Rightarrow> RSSUpdateNotifier \<Rightarrow> RSS" where
  "RegisterRSSUpdateNotifier rss f = rss\<lparr>rssUpdateNotifiers := rssUpdateNotifiers rss @ [f]\<rparr>"

text \<open>
  The package-level \<open>Serve(source, f, ttl)\<close>; \<open>env\<close> is the outside world during the
  initial acquisition.  No feed exists when the acquisition panics or fails.
\<close>

definition Serve :: "env \<Rightarrow> string \<Rightarrow> RSSUpdateNotifier \<Rightarrow> Duration \<Rightarrow> world \<Rightarrow> event list \<Rightarrow>
    status \<times> RSS option \<times> world \<times> event list" where
  "Serve env src f ttl w es =
     (case acquire env src w of
        (Panics p, w1) \<Rightarrow> (Crashed p, None, w1, es)
      | (Returns (Inl err), w1) \<Rightarrow>
          (Stopped (Some err), None,
           logDebugln env (if take 4 src = ''http'' then ''ERROR:'' else ''ERROR'') err w1, es)
      | (Returns (Inr rss0), w1) \<Rightarrow>
          (let rss = RegisterRSSUpdateNotifier rss0 f;
               w2 = (if Items (Channel rss) \<noteq> []
                     then w1\<lparr>spawned := spawned w1 @ [(f, Items (Channel rss))]\<rparr> else w1)
           in case RSS_Serve rss ttl w2 es of (st, rss', w', es') \<Rightarrow> (st, Some rss', w', es')))"

section \<open>The earlier revision of rss.go\<close>

text \<open>
  In \<open>src/rss.go\<close>, \<open>latestItem\<close> takes \<open>&items[0]\<close> without looking at the length, and
  \<open>Update\<close> assigns the freshly built feed to its own variable \<open>rss\<close>: the feed behind
  the receiver is never written.
\<close>

definition latestItem_old :: "RSS \<Rightarrow> RSSItem exec" where
  "latestItem_old rss =
     (case Items (Channel rss) of
        [] \<Rightarrow> Panics IndexOutOfRange
      | item # items \<Rightarrow> latestLoop item items)"

definition Update_old :: "env \<Rightarrow> RSS \<Rightarrow> world \<Rightarrow> (error + RSSItem list) exec \<times> RSS \<times> world" where
  "Update_old env rss w =
     (let w1 = logTrace env ''rss.Update()'' w in
      case latestItem_old rss of
        Panics p \<Rightarrow> (Panics p, rss, w1)
      | Returns latest \<Rightarrow>
          if source rss = [] then (Returns (Inl ''empty rss.source''), rss, w1)
          else
            (case acquire env (source rss) w1 of
               (Panics p, w2) \<Rightarrow> (Panics p, rss, w2)
             | (Returns (Inl err), w2) \<Rightarrow> (Returns (Inl err), rss, logErr env err w2)
             | (Returns (Inr rss2), w2) \<Rightarrow>
                 (case newerLoop (Item_PubDate latest) (Items (Channel rss2)) [] of
                    Panics p \<Rightarrow> (Panics p, rss, w2)
                  | Returns newItems \<Rightarrow> (Returns (Inr newItems), rss, w2))))"

section \<open>The date normalizer\<close>

text \<open>
  \<open>UnmarshalXML\<close> reads the text \<open>v\<close> of the element (\<open>d.DecodeElement(&v, &start)\<close>, whose
  error is dropped) and tries the layouts in order.  \<open>time.Parse\<close> is a parameter; the
  result is the returned error (\<open>None\<close> is \<open>nil\<close>) and the value of \<open>*r\<close> afterwards.
\<close>

definition rfc822layout :: "string list" where
  "rfc822layout =
     [''Mon, 02 Jan 2006 15:04:05 MST'',
      ''Mon, 02 Jan 2006 15:04:05 -0700'']"

fun layoutLoop :: "(string \<Rightarrow> string \<Rightarrow> error + Time) \<Rightarrow> string list \<Rightarrow> string \<Rightarrow>
    error option \<Rightarrow> error option \<times> RFC822 option" where
  "layoutLoop parse [] v err = (err, None)"
| "layoutLoop parse (layout # layouts) v err =
     (case parse layout v of
        Inr t \<Rightarrow> (None, Some t)
      | Inl err' \<Rightarrow> layoutLoop parse layouts v (Some err'))"

definition UnmarshalXML :: "(string \<Rightarrow> string \<Rightarrow> error + Time) \<Rightarrow> string \<Rightarrow> RFC822 \<Rightarrow>
    error option \<times> RFC822" where
  "UnmarshalXML parse v r =
     (case layoutLoop parse rfc822layout v None of
        (err, None) \<Rightarrow> (err, r)
      | (err, Some t) \<Rightarrow> (err, t))"

subsection \<open>time.Parse\<close>

text \<open>
  \<open>time.Parse\<close> belongs to the Go standard library.  What follows is a model of it for
  the two layouts of \<open>rfc822layout\<close>, after \<open>time/format.go\<close>: the layout is a sequence
  of literal texts and standard elements, each consuming a prefix of the value; then the
  value must be used up, the day must exist in its month, and the instant is computed
  from the civil time and the zone.  A zone abbreviation is resolved by the local zone
  database, the parameter \<open>lookupName\<close>; an unknown abbreviation counts as UTC.  Error
  texts are abbreviated, and a fractional second in the value is not recognised.
\<close>

definition isDigit :: "char \<Rightarrow> bool" where
  "isDigit c = (c \<in> set ''0123456789'')"

definition digit :: "char \<Rightarrow> int" where
  "digit c = int (of_char c) - 48"

definition getnum :: "string \<Rightarrow> bool \<Rightarrow> (int \<times> string) option" where
  "getnum s fixed =
     (case s of
        [] \<Rightarrow> None
      | c # r \<Rightarrow>
          if \<not> isDigit c then None
          else (case r of
                  [] \<Rightarrow> if fixed then None else Some (digit c, r)
                | d # r' \<Rightarrow>
                    if \<not> isDigit d then (if fixed then None else Some (digit c, r))
                    else Some (digit c * 10 + digit d, r')))"

definition match1 :: "char \<Rightarrow> char \<Rightarrow> bool" where
  "match1 c1 c2 =
     (c1 = c2 \<or>
      (or (of_char c1 :: nat) 32 = or (of_char c2) 32 \<and>
       97 \<le> or (of_char c1 :: nat) 32 \<and> or (of_char c1 :: nat) 32 \<le> 122))"

fun lookup :: "string list \<Rightarrow> string \<Rightarrow> nat \<Rightarrow> (nat \<times> string) option" where
  "lookup [] val i = None"
| "lookup (v # tab) val i =
     (if length v \<le> length val \<and> list_all2 match1 (take (length v) val) v
      then Some (i, drop (length v) val)
      else lookup tab val (Suc i))"

definition shortDayNames :: "string list" where
  "shortDayNames = [''Sun'', ''Mon'', ''Tue'', ''Wed'', ''Thu'', ''Fri'', ''Sat'']"

definition shortMonthNames :: "string list" where
  "shortMonthNames =
     [''Jan'', ''Feb'', ''Mar'', ''Apr'', ''May'', ''Jun'',
      ''Jul'', ''Aug'', ''Sep'', ''Oct'', ''Nov'', ''Dec'']"

definition cutspace :: "string \<Rightarrow> string" where
  "cutspace s = dropWhile (\<lambda>c. c = CHR '' '') s"

function skip :: "string \<Rightarrow> string \<Rightarrow> string option" where
  "skip val [] = Some val"
| "skip val (p # prefix) =
     (if p = CHR '' ''
      then (if val \<noteq> [] \<and> hd val \<noteq> CHR '' '' then None
            else skip (cutspace val) (dropWhile (\<lambda>c. c = CHR '' '') prefix))
      else (case val of
              [] \<Rightarrow> None
            | v # vs \<Rightarrow> if v = p then skip vs prefix else None))"
  by pat_completeness auto
termination
  by (relation "measure (\<lambda>(val, prefix). length prefix)")
    (auto simp: length_dropWhile_le le_imp_less_Suc)

definition isUpper :: "char \<Rightarrow> bool" where
  "isUpper c = (65 \<le> (of_char c :: nat) \<and> (of_char c :: nat) \<le> 90)"

definition decimal :: "string \<Rightarrow> int" where
  "decimal ds = foldl (\<lambda>a c. a * 10 + digit c) 0 ds"

definition parseSignedOffset :: "string \<Rightarrow> nat" where
  "parseSignedOffset val =
     (case val of
        [] \<Rightarrow> 0
      | sign # rest \<Rightarrow>
          if sign \<noteq> CHR ''-'' \<and> sign \<noteq> CHR ''+'' then 0
          else if takeWhile isDigit rest = [] then 0
          else if 23 < decimal (takeWhile isDigit rest) then 0
          else 1 + length (takeWhile isDigit rest))"

definition parseGMT :: "string \<Rightarrow> nat" where
  "parseGMT val = (if drop 3 val = [] then 3 else 3 + parseSignedOffset (drop 3 val))"

definition parseTimeZone :: "string \<Rightarrow> nat \<times> bool" where
  "parseTimeZone val =
     (if length val < 3 then (0, False)
      else if 4 \<le> length val \<and> (take 4 val = ''ChST'' \<or> take 4 val = ''MeST'') then (4, True)
      else if take 3 val = ''GMT'' then (parseGMT val, True)
      else if hd val = CHR ''+'' \<or> hd val = CHR ''-''
      then (parseSignedOffset val, 0 < parseSignedOffset val)
      else (let nUpper = length (takeWhile isUpper (take 6 val)) in
            if nUpper = 5 then (if val ! 4 = CHR ''T'' then (5, True) else (0, False))
            else if nUpper = 4
            then (if val ! 3 = CHR ''T'' \<or> take 4 val = ''WITA'' then (4, True) else (0, False))
            else if nUpper = 3 then (3, True)
            else (0, False)))"

datatype zone = NoZone | UTC | ZoneName string | ZoneOffset int

record fields =
  pyear :: int
  pmonth :: int
  pday :: int
  phour :: int
  pmin :: int
  psec :: int
  pzone :: zone

datatype chunk =
  Lit string | stdWeekDay | stdZeroDay | stdMonth | stdLongYear | stdHour
  | stdZeroMinute | stdZeroSecond | stdTZ | stdNumTZ

definition errBad :: string where
  "errBad = ''cannot parse''"

fun parseStd :: "chunk \<Rightarrow> string \<Rightarrow> fields \<Rightarrow> string + fields \<times> string" where
  "parseStd (Lit prefix) val f =
     (case skip val prefix of None \<Rightarrow> Inl errBad | Some rest \<Rightarrow> Inr (f, rest))"
| "parseStd stdWeekDay val f =
     (case lookup shortDayNames val 0 of None \<Rightarrow> Inl errBad | Some (i, rest) \<Rightarrow> Inr (f, rest))"
| "parseStd stdZeroDay val f =
     (case getnum val True of
        None \<Rightarrow> Inl errBad
      | Some (n, rest) \<Rightarrow> Inr (f\<lparr>pday := n\<rparr>, rest))"
| "parseStd stdMonth val f =
     (case lookup shortMonthNames val 0 of
        None \<Rightarrow> Inl errBad
      | Some (i, rest) \<Rightarrow> Inr (f\<lparr>pmonth := int i + 1\<rparr>, rest))"
| "parseStd stdLongYear val f =
     (if length val < 4 \<or> \<not> isDigit (hd val) then Inl errBad
      else if \<not> list_all isDigit (take 4 val) then Inl errBad
      else Inr (f\<lparr>pyear := decimal (take 4 val)\<rparr>, drop 4 val))"
| "parseStd stdHour val f =
     (case getnum val False of
        None \<Rightarrow> Inl errBad
      | Some (n, rest) \<Rightarrow>
          if n < 0 \<or> 24 \<le> n then Inl '': hour out of range''
          else Inr (f\<lparr>phour := n\<rparr>, rest))"
| "parseStd stdZeroMinute val f =
     (case getnum val True of
        None \<Rightarrow> Inl errBad
      | Some (n, rest) \<Rightarrow>
          if n < 0 \<or> 60 \<le> n then Inl '': minute out of range''
          else Inr (f\<lparr>pmin := n\<rparr>, rest))"
| "parseStd stdZeroSecond val f =
     (case getnum val True of
        None \<Rightarrow> Inl errBad
      | Some (n, rest) \<Rightarrow>
          if n < 0 \<or> 60 \<le> n then Inl '': second out of range''
          else Inr (f\<lparr>psec := n\<rparr>, rest))"
| "parseStd stdTZ val f =
     (if 3 \<le> length val \<and> take 3 val = ''UTC'' then Inr (f\<lparr>pzone := UTC\<rparr>, drop 3 val)
      else (case parseTimeZone val of
              (n, ok) \<Rightarrow>
                if \<not> ok then Inl errBad
                else Inr (f\<lparr>pzone := ZoneName (take n val)\<rparr>, drop n val)))"
| "parseStd stdNumTZ val f =
     (if length val < 5 then Inl errBad
      else if \<not> list_all isDigit (take 4 (drop 1 val)) then Inl errBad
      else (let off = (decimal (take 2 (drop 1 val)) * 60 + decimal (take 2 (drop 3 val))) * 60
            in if hd val = CHR ''+'' then Inr (f\<lparr>pzone := ZoneOffset off\<rparr>, drop 5 val)
               else if hd val = CHR ''-'' then Inr (f\<lparr>pzone := ZoneOffset (- off)\<rparr>, drop 5 val)
               else Inl errBad))"

fun parseChunks :: "chunk list \<Rightarrow> string \<Rightarrow> fields \<Rightarrow> string + fields \<times> string" where
  "parseChunks [] val f = Inr (f, val)"
| "parseChunks (c # cs) val f =
     (case parseStd c val f of
        Inl msg \<Rightarrow> Inl msg
      | Inr (f', rest) \<Rightarrow> parseChunks cs rest f')"

definition layoutChunks :: "string \<Rightarrow> chunk list option" where
  "layoutChunks layout =
     (let common = [stdWeekDay, Lit '', '', stdZeroDay, Lit '' '', stdMonth, Lit '' '',
                    stdLongYear, Lit '' '', stdHour, Lit '':'', stdZeroMinute, Lit '':'',
                    stdZeroSecond, Lit '' '']
      in if layout = ''Mon, 02 Jan 2006 15:04:05 MST'' then Some (common @ [stdTZ])
         else if layout = ''Mon, 02 Jan 2006 15:04:05 -0700'' then Some (common @ [stdNumTZ])
         else None)"

text \<open>Days from 1970-01-01 to a date of the proleptic Gregorian calendar.\<close>

definition isLeap :: "int \<Rightarrow> bool" where
  "isLeap y = (y mod 4 = 0 \<and> (y mod 100 \<noteq> 0 \<or> y mod 400 = 0))"

definition daysIn :: "int \<Rightarrow> int \<Rightarrow> int" where
  "daysIn m y =
     (if m = 2 \<and> isLeap y then 29
      else [31, 28, 31, 30, 31, 30, 31, 31, 30, 31, 30, 31] ! nat (m - 1))"

definition daysSinceEpoch :: "int \<Rightarrow> int \<Rightarrow> int \<Rightarrow> int" where
  "daysSinceEpoch y m d =
     (let y' = (if m \<le> 2 then y - 1 else y);
          era = y' div 400;
          yoe = y' - era * 400;
          doy = (153 * (if 2 < m then m - 3 else m + 9) + 2) div 5 + d - 1;
          doe = yoe * 365 + yoe div 4 - yoe div 100 + doy
      in era * 146097 + doe - 719468)"

definition Date :: "int \<Rightarrow> int \<Rightarrow> int \<Rightarrow> int \<Rightarrow> int \<Rightarrow> int \<Rightarrow> Time" where
  "Date y m d h mi s =
     (daysSinceEpoch y m d * 86400 + h * 3600 + mi * 60 + s) * 1000000000"

definition Second :: int where
  "Second = 1000000000"

definition time_Parse :: "(string \<Rightarrow> Time \<Rightarrow> int option) \<Rightarrow> string \<Rightarrow> string \<Rightarrow> error + Time" where
  "time_Parse lookupName layout val =
     (case layoutChunks layout of
        None \<Rightarrow> Inl ''layout not modelled''
      | Some cs \<Rightarrow>
          (case parseChunks cs val
                  \<lparr>pyear = 0, pmonth = - 1, pday = - 1, phour = 0, pmin = 0, psec = 0,
                   pzone = NoZone\<rparr> of
             Inl msg \<Rightarrow> Inl (''parsing time '' @ val @ '' as '' @ layout @ '': '' @ msg)
           | Inr (f, rest) \<Rightarrow>
               if rest \<noteq> [] then Inl (''parsing time '' @ val @ '': extra text: '' @ rest)
               else if pday f < 1 \<or> daysIn (pmonth f) (pyear f) < pday f
               then Inl (''parsing time '' @ val @ '': day out of range'')
               else (let t = Date (pyear f) (pmonth f) (pday f) (phour f) (pmin f) (psec f)
                     in case pzone f of
                          NoZone \<Rightarrow> Inr t
                        | UTC \<Rightarrow> Inr t
                        | ZoneOffset off \<Rightarrow> Inr (t - off * Second)
                        | ZoneName name \<Rightarrow>
                            (case lookupName name t of
                               Some off \<Rightarrow> Inr (t - off * Second)
                             | None \<Rightarrow> Inr t))))"

section \<open>Example feeds\<close>

definition zeroRSSItem :: RSSItem where
  "zeroRSSItem =
     \<lparr>Item_Title = [], Item_Link = [], Item_Description = [], Author = [],
      Item_Categories = [], Comments = [], Enclosure = None, GUID = [],
      Item_PubDate = None, Source = None\<rparr>"

definition zeroRSSChannel :: RSSChannel where
  "zeroRSSChannel =
     \<lparr>Title = [], Link = [], Description = [], Language = [], Copyright = [],
      ManagingEditor = [], WebMaster = [], PubDate = None, LastBuildDate = None,
      Categories = [], Generator = [], Docs = [], Cloud = None, TTL = 0, ImageR = None,
      Rating = [], TextInput = None, SkipHours = [], SkipDays = [], Items = []\<rparr>"

text \<open>
  A world with one file \<open>name\<close> whose bytes \<open>doc\<close> decode to the channel \<open>c\<close>, no
  network, and the default log level.
\<close>

definition fileEnv :: "string \<Rightarrow> string \<Rightarrow> RSSChannel \<Rightarrow> env" where
  "fileEnv name doc c =
     \<lparr>LogLevel = Lerror,
      http_Get = (\<lambda>url. Inl ''connection refused''),
      ReadFile = (\<lambda>f. if f = name then Inr doc else Inl ''no such file''),
      Decode = (\<lambda>b. if b = doc then Inr (''2.0'', c) else Inl ''EOF''),
      Now = (\<lambda>k. 1526027319000000000 + int k)\<rparr>"

definition quiet :: world where
  "quiet = \<lparr>logged = [], spawned = []\<rparr>"

text \<open>A channel as decoded from markup with white space around the element texts.\<close>

definition paddedChannel :: RSSChannel where
  "paddedChannel =
     zeroRSSChannel\<lparr>Title := [CHR 0x0A, CHR 0x09] @ ''News '',
                    Link := '' https://example.org'' @ [CHR 0x0A],
                    Description := '' All the news'' @ [CHR 0x0A],
                    Copyright := [CHR 0x09] @ ''2018'',
                    Items := [zeroRSSItem\<lparr>Item_Title := '' First '',
                                          Item_Description := [CHR 0x0A] @ ''Story'' @ [CHR 0x0A]\<rparr>]\<rparr>"

definition paddedFeed :: RSS where
  "paddedFeed =
     \<lparr>Version = ''2.0'',
      Channel = zeroRSSChannel\<lparr>Title := ''News'',
                    Link := '' https://example.org'' @ [CHR 0x0A],
                    Description := ''All the news'',
                    Copyright := ''2018'',
                    Items := [zeroRSSItem\<lparr>Item_Title := ''First'',
                                          Item_Description := ''Story''\<rparr>]\<rparr>,
      origin = ''<rss/>'', source = [], lastUpdateAt = 1526027319000000000,
      rssUpdateNotifiers = []\<rparr>"

text \<open>The instant 2018-05-11T08:28:39Z.\<close>

definition T0 :: Time where
  "T0 = 1526027319000000000"

definition datedItem :: "string \<Rightarrow> Time \<Rightarrow> RSSItem" where
  "datedItem title d = zeroRSSItem\<lparr>Item_Title := title, Item_PubDate := Some d\<rparr>"

text \<open>A feed read from \<open>feed.xml\<close> whose only item was published at \<open>T0\<close>.\<close>

definition knownFeed :: RSS where
  "knownFeed =
     \<lparr>Version = ''2.0'',
      Channel = zeroRSSChannel\<lparr>Title := ''Old title'', TTL := 20,
                               Items := [datedItem ''a'' T0]\<rparr>,
      origin = ''<old/>'', source = ''feed.xml'', lastUpdateAt = 1526027000000000000,
      rssUpdateNotifiers = [7]\<rparr>"

text \<open>
  Later contents of the file: one item a second newer than \<open>T0\<close>, the known item, and
  one a second older.
\<close>

definition freshChannel :: RSSChannel where
  "freshChannel =
     zeroRSSChannel\<lparr>Title := ''New title'', TTL := 60,
                    Items := [datedItem ''c'' (T0 + 1000000000), datedItem ''a'' T0,
                              datedItem ''z'' (T0 - 1000000000)]\<rparr>"

text \<open>Later contents in which the second item has no \<open>pubDate\<close> element.\<close>

definition undatedChannel :: RSSChannel where
  "undatedChannel =
     zeroRSSChannel\<lparr>Title := ''New title'',
                    Items := [datedItem ''c'' (T0 + 1000000000),
                              zeroRSSItem\<lparr>Item_Title := ''u''\<rparr>]\<rparr>"

definition emptyFeed :: RSS where
  "emptyFeed = knownFeed\<lparr>Channel := zeroRSSChannel\<rparr>"

text \<open>An item is newer than \<open>t0\<close>: it has a publish date, strictly after \<open>t0\<close>.\<close>

definition newer :: "Time \<Rightarrow> RSSItem \<Rightarrow> bool" where
  "newer t0 item = (case Item_PubDate item of None \<Rightarrow> False | Some d \<Rightarrow> t0 < d)"

text \<open>\<open>knownFeed\<close> after an update against \<open>freshChannel\<close>.\<close>

definition servedFeed :: RSS where
  "servedFeed =
     knownFeed\<lparr>Channel := (Channel knownFeed)\<lparr>Items := Items freshChannel\<rparr>,
               lastUpdateAt := 1526027319000000001\<rparr>"

text \<open>The feed that \<open>FeedFromFile\<close> builds from \<open>freshChannel\<close>.\<close>

definition freshFeed :: RSS where
  "freshFeed =
     \<lparr>Version = ''2.0'', Channel = freshChannel, origin = ''<rss/>'', source = ''feed.xml'',
      lastUpdateAt = 1526027319000000000, rssUpdateNotifiers = []\<rparr>"

section \<open>Properties of the document parser\<close>

lemma rev_dropWhile_rev_prefix:
  "ys = rev (dropWhile P (rev ys)) @ rev (takeWhile P (rev ys))"
  by (metis rev_append rev_rev_ident takeWhile_dropWhile_id)

lemma hd_rev_dropWhile_rev:
  assumes "rev (dropWhile P (rev ys)) \<noteq> []"
  shows "hd (rev (dropWhile P (rev ys))) = hd ys"
  using assms rev_dropWhile_rev_prefix [of ys P] by (metis hd_append2)

lemma last_rev_dropWhile_rev:
  assumes "rev (dropWhile P (rev ys)) \<noteq> []"
  shows "\<not> P (last (rev (dropWhile P (rev ys))))"
  using assms by (simp add: last_rev hd_dropWhile)

lemma outer_dropWhile:
  assumes "rev (dropWhile P (rev (dropWhile P s))) \<noteq> []"
  shows "\<not> P (hd (rev (dropWhile P (rev (dropWhile P s)))))"
    and "\<not> P (last (rev (dropWhile P (rev (dropWhile P s)))))"
proof -
  have ne: "dropWhile P s \<noteq> []"
  proof
    assume "dropWhile P s = []"
    with assms show False by simp
  qed
  have "hd (rev (dropWhile P (rev (dropWhile P s)))) = hd (dropWhile P s)"
    using assms by (rule hd_rev_dropWhile_rev)
  with ne show "\<not> P (hd (rev (dropWhile P (rev (dropWhile P s)))))"
    by (simp add: hd_dropWhile)
  show "\<not> P (last (rev (dropWhile P (rev (dropWhile P s)))))"
    using assms by (rule last_rev_dropWhile_rev)
qed

lemma trimmed_Trim: "trimmed (Trim s cutset)"
  unfolding trimmed_def Trim_def
  using outer_dropWhile [of "\<lambda>c. c \<in> set cutset" s] by blast

lemma Feed_paddedFeed:
  "Feed (fileEnv ''feed.xml'' ''<rss/>'' paddedChannel) ''<rss/>'' quiet = (Inr paddedFeed, quiet)"
  by (simp add: Feed_def fileEnv_def logTrace_def Ltrace_def Lerror_def paddedChannel_def
      paddedFeed_def trimChannel_def trimItem_def Trim_def cutset_def zeroRSSChannel_def
      zeroRSSItem_def)

text \<open>
  Claim C4, as the code has it.  After \<open>Feed\<close> succeeds, the channel's title,
  description and copyright and every item's title and description carry no leading
  or trailing space, tab or newline, whatever the decoder delivered.  The channel's
  link is not part of the normalisation pass: it is stored as decoded.
\<close>

theorem Feed_trims:
  assumes "Feed env b w = (Inr rss, w')"
  shows "trimmed (Title (Channel rss)) \<and> trimmed (Description (Channel rss)) \<and>
         trimmed (Copyright (Channel rss)) \<and>
         (\<forall>item \<in> set (Items (Channel rss)).
            trimmed (Item_Title item) \<and> trimmed (Item_Description item)) \<and>
         (\<exists>v c. Decode env b = Inr (v, c) \<and> Link (Channel rss) = Link c)"
proof -
  from assms obtain v c where d: "Decode env b = Inr (v, c)"
    and r: "Channel rss = trimChannel c"
    by (auto simp: Feed_def Let_def split: sum.splits prod.splits)
  have "trimmed (Item_Title item) \<and> trimmed (Item_Description item)"
    if "item \<in> set (Items (trimChannel c))" for item
    using that by (auto simp: trimChannel_def trimItem_def trimmed_Trim)
  with d r show ?thesis
    by (simp add: trimChannel_def trimmed_Trim)
qed

theorem Feed_trims_witness:
  "Feed (fileEnv ''feed.xml'' ''<rss/>'' paddedChannel) ''<rss/>'' quiet = (Inr paddedFeed, quiet) \<and>
   Title (Channel paddedFeed) = ''News'' \<and> trimmed (Title (Channel paddedFeed)) \<and>
   trimmed (Description (Channel paddedFeed)) \<and> trimmed (Copyright (Channel paddedFeed)) \<and>
   list_all (\<lambda>item. trimmed (Item_Title item) \<and> trimmed (Item_Description item))
     (Items (Channel paddedFeed))"
proof -
  have "Title (Channel paddedFeed) = ''News''"
    by (simp add: paddedFeed_def)
  with Feed_trims [OF Feed_paddedFeed] Feed_paddedFeed show ?thesis
    by (simp add: list_all_iff)
qed

text \<open>
  Claim C4 as stated fails for the channel's link: a link decoded with a leading blank
  and a trailing newline keeps both.
\<close>

theorem Feed_link_counterexample:
  "fst (Feed (fileEnv ''feed.xml'' ''<rss/>'' paddedChannel) ''<rss/>'' quiet) = Inr paddedFeed \<and>
   Link (Channel paddedFeed) = '' https://example.org'' @ [CHR 0x0A] \<and>
   \<not> trimmed (Link (Channel paddedFeed))"
  by (simp add: Feed_paddedFeed paddedFeed_def trimmed_def cutset_def)

section \<open>Properties of the update and diff engine\<close>

lemma ptr_After_Some [simp]: "ptr_After (Some r) (Some u) = Returns (u < r)"
  by (simp add: ptr_After_def After_def)

lemma ptr_After_None1 [simp]: "ptr_After None t = Panics NilDereference"
  by (simp add: ptr_After_def)

lemma ptr_After_None2 [simp]: "ptr_After p None = Panics NilDereference"
  by (simp add: ptr_After_def After_def split: option.splits)

lemma newerLoop_dated:
  assumes "\<forall>item \<in> set items. Item_PubDate item \<noteq> None"
  shows "newerLoop (Some t0) items acc = Returns (acc @ filter (newer t0) items)"
  using assms
proof (induction items arbitrary: acc)
  case Nil
  then show ?case by simp
next
  case (Cons item items)
  from Cons.prems obtain d where d: "Item_PubDate item = Some d"
    by auto
  from Cons.prems have "\<forall>item \<in> set items. Item_PubDate item \<noteq> None"
    by simp
  with Cons.IH d show ?case
    by (simp add: newer_def)
qed

lemma newerLoop_undated:
  assumes "item \<in> set items" "Item_PubDate item = None"
  shows "newerLoop t items acc = Panics NilDereference"
  using assms
proof (induction items arbitrary: acc)
  case Nil
  then show ?case by simp
next
  case (Cons x items)
  show ?case
  proof (cases "ptr_After (Item_PubDate x) t")
    case (Panics p)
    then have "p = NilDereference"
      by (auto simp: ptr_After_def After_def split: option.splits)
    with Panics show ?thesis by simp
  next
    case (Returns b)
    then have "Item_PubDate x \<noteq> None"
      by (auto simp: ptr_After_def split: option.splits)
    with Cons.prems have "item \<in> set items"
      by auto
    with Cons.IH Cons.prems(2) Returns show ?thesis
      by simp
  qed
qed

lemma latestLoop_dated:
  assumes "\<forall>item \<in> set items. Item_PubDate item \<noteq> None" "Item_PubDate cur = Some c"
  shows "\<exists>l t0. latestLoop cur items = Returns l \<and> l \<in> set (cur # items) \<and>
           Item_PubDate l = Some t0 \<and>
           (\<forall>item \<in> set (cur # items). \<forall>d. Item_PubDate item = Some d \<longrightarrow> d \<le> t0)"
  using assms
proof (induction items arbitrary: cur c)
  case Nil
  then show ?case by simp
next
  case (Cons x items)
  from Cons.prems obtain d where d: "Item_PubDate x = Some d"
    by auto
  from Cons.prems have rest: "\<forall>item \<in> set items. Item_PubDate item \<noteq> None"
    by simp
  show ?case
  proof (cases "c < d")
    case True
    from Cons.IH [OF rest d] obtain l t0 where
      "latestLoop x items = Returns l" "l \<in> set (x # items)" "Item_PubDate l = Some t0"
      "\<forall>item \<in> set (x # items). \<forall>e. Item_PubDate item = Some e \<longrightarrow> e \<le> t0"
      by blast
    with True d Cons.prems(2) show ?thesis
      by (auto simp: ptr_After_def After_def)
  next
    case False
    from Cons.IH [OF rest Cons.prems(2)] obtain l t0 where
      "latestLoop cur items = Returns l" "l \<in> set (cur # items)" "Item_PubDate l = Some t0"
      "\<forall>item \<in> set (cur # items). \<forall>e. Item_PubDate item = Some e \<longrightarrow> e \<le> t0"
      by blast
    with False d Cons.prems(2) show ?thesis
      by (auto simp: ptr_After_def After_def)
  qed
qed

text \<open>
  On a sequence in which every item is dated, \<open>latestItem\<close> returns an item of the
  sequence whose date no other item exceeds.
\<close>

lemma latestItem_dated:
  assumes "Items (Channel rss) \<noteq> []"
    and "\<forall>item \<in> set (Items (Channel rss)). Item_PubDate item \<noteq> None"
  shows "\<exists>l t0. latestItem rss = Returns (Some l) \<and> l \<in> set (Items (Channel rss)) \<and>
           Item_PubDate l = Some t0 \<and>
           (\<forall>item \<in> set (Items (Channel rss)). \<forall>d. Item_PubDate item = Some d \<longrightarrow> d \<le> t0)"
proof -
  from assms(1) obtain x xs where i: "Items (Channel rss) = x # xs"
    by (cases "Items (Channel rss)") auto
  with assms(2) obtain c where c: "Item_PubDate x = Some c"
    and rest: "\<forall>item \<in> set xs. Item_PubDate item \<noteq> None"
    by auto
  from latestLoop_dated [OF rest c] obtain l t0 where
    l: "latestLoop x xs = Returns l" "l \<in> set (x # xs)" "Item_PubDate l = Some t0"
      "\<forall>item \<in> set (x # xs). \<forall>d. Item_PubDate item = Some d \<longrightarrow> d \<le> t0"
    by blast
  from l(1) i have "latestItem rss = Returns (Some l)"
    by (simp add: latestItem_def)
  with l(2-4) i show ?thesis
    by metis
qed

text \<open>
  The acquisition fails exactly when reading the source fails, or when its bytes do not
  decode; the error is the one of that step.
\<close>

lemma Feed_error: "fst (Feed env b w) = Inl err \<longleftrightarrow> Decode env b = Inl err"
  by (auto simp: Feed_def Let_def split: sum.splits prod.splits)

lemma FeedFromFile_error:
  "fst (FeedFromFile env name w) = Inl err \<longleftrightarrow>
     ReadFile env name = Inl err \<or> (\<exists>b. ReadFile env name = Inr b \<and> Decode env b = Inl err)"
proof (cases "ReadFile env name")
  case (Inl e)
  then show ?thesis by (simp add: FeedFromFile_def)
next
  case (Inr b)
  obtain r w1 where f: "Feed env b w = (r, w1)"
    by (cases "Feed env b w") auto
  with Feed_error [of env b w err] have "r = Inl err \<longleftrightarrow> Decode env b = Inl err"
    by simp
  with Inr f show ?thesis
    by (cases r) (simp_all add: FeedFromFile_def)
qed

lemma FeedFromURL_error:
  "fst (FeedFromURL env url w) = Inl err \<longleftrightarrow>
     http_Get env url = Inl err \<or> http_Get env url = Inr (Inl err) \<or>
     (\<exists>b. http_Get env url = Inr (Inr b) \<and> Decode env b = Inl err)"
proof (cases "http_Get env url")
  case (Inl e)
  then show ?thesis by (simp add: FeedFromURL_def)
next
  case (Inr body)
  show ?thesis
  proof (cases body)
    case (Inl e)
    with Inr show ?thesis by (simp add: FeedFromURL_def)
  next
    case body: (Inr b)
    obtain r w1 where f: "Feed env b w = (r, w1)"
      by (cases "Feed env b w") auto
    with Feed_error [of env b w err] have "r = Inl err \<longleftrightarrow> Decode env b = Inl err"
      by simp
    with Inr body f show ?thesis
      by (cases r) (simp_all add: FeedFromURL_def)
  qed
qed

lemma acquire_error:
  "fst (acquire env src w) = Returns (Inl err) \<longleftrightarrow>
     4 \<le> length src \<and>
     (if take 4 src = ''http'' then fst (FeedFromURL env src w) = Inl err
      else fst (FeedFromFile env src w) = Inl err)"
proof (cases "length src < 4")
  case True
  then show ?thesis by (simp add: acquire_def)
next
  case False
  then show ?thesis by (simp add: acquire_def split: prod.splits)
qed

lemma Update_acquired:
  assumes "latestItem rss = Returns latest" "source rss \<noteq> []"
    "acquire env (source rss) (logTrace env ''rss.Update()'' w) = (Returns (Inr rss2), w2)"
  shows "Update env rss w =
    (let rss' = rss\<lparr>Channel := (Channel rss)\<lparr>Items := Items (Channel rss2)\<rparr>,
                    lastUpdateAt := Now env 1\<rparr>
     in case latest of
          None \<Rightarrow> (Returns (Inr []), rss', w2)
        | Some l \<Rightarrow>
            (case newerLoop (Item_PubDate l) (Items (Channel rss2)) [] of
               Panics p \<Rightarrow> (Panics p, rss', w2)
             | Returns newItems \<Rightarrow> (Returns (Inr newItems), rss', w2)))"
  using assms by (simp add: Update_def Let_def split: option.split)

text \<open>
  When the prior latest item has the date \<open>t0\<close> and every item of the freshly parsed
  sequence is dated, \<open>Update\<close> reports exactly the items dated strictly after \<open>t0\<close>, in
  document order.  When some item of the fresh sequence is undated, \<open>Update\<close> panics.
\<close>

lemma Update_new_items_dated:
  assumes "latestItem rss = Returns (Some l)" "Item_PubDate l = Some t0" "source rss \<noteq> []"
    "acquire env (source rss) (logTrace env ''rss.Update()'' w) = (Returns (Inr rss2), w2)"
    "\<forall>item \<in> set (Items (Channel rss2)). Item_PubDate item \<noteq> None"
  shows "fst (Update env rss w) = Returns (Inr (filter (newer t0) (Items (Channel rss2))))"
  using assms by (simp add: Update_acquired Let_def newerLoop_dated)

lemma Update_new_items_undated:
  assumes "latestItem rss = Returns (Some l)" "source rss \<noteq> []"
    "acquire env (source rss) (logTrace env ''rss.Update()'' w) = (Returns (Inr rss2), w2)"
    "item \<in> set (Items (Channel rss2))" "Item_PubDate item = None"
  shows "fst (Update env rss w) = Panics NilDereference"
  using assms by (simp add: Update_acquired Let_def newerLoop_undated)

lemmas example_defs =
  fileEnv_def quiet_def knownFeed_def datedItem_def zeroRSSChannel_def zeroRSSItem_def T0_def

lemmas eval_defs =
  Update_def latestItem_def acquire_def FeedFromFile_def FeedFromURL_def Feed_def
  trimChannel_def trimItem_def Trim_def cutset_def logTrace_def logErr_def
  Ltrace_def Lerror_def Let_def

lemma latestItem_knownFeed: "latestItem knownFeed = Returns (Some (datedItem ''a'' T0))"
  by (simp add: latestItem_def knownFeed_def)



text \<open>
  Claim C1 at a fresh sequence with an item that has no publish date.  The prior latest
  item of \<open>knownFeed\<close> has publish date \<open>T0\<close>; the fresh sequence holds one item a
  second newer and one item without \<open>pubDate\<close>.  The claim asks for exactly the newer
  item to be reported; \<open>Update\<close> replaces the item sequence and then panics in the
  comparison \<open>items[i].PubDate.After(latestItem.PubDate)\<close>, which dereferences the nil
  \<open>PubDate\<close>.
\<close>

theorem Update_undated_item_panics:
  "latestItem knownFeed = Returns (Some (datedItem ''a'' T0)) \<and>
   Update (fileEnv ''feed.xml'' ''<rss/>'' undatedChannel) knownFeed quiet =
     (Panics NilDereference,
      knownFeed\<lparr>Channel := (Channel knownFeed)\<lparr>Items := Items undatedChannel\<rparr>,
                lastUpdateAt := 1526027319000000001\<rparr>,
      quiet)"
  by (simp add: eval_defs example_defs undatedChannel_def)

text \<open>
  Against \<open>freshChannel\<close>, \<open>Update\<close> reports the one item newer than \<open>T0\<close>; neither the
  item dated \<open>T0\<close> nor the older one is new.
\<close>

lemma Update_fresh:
  "Update (fileEnv ''feed.xml'' ''<rss/>'' freshChannel) knownFeed quiet =
     (Returns (Inr [datedItem ''c'' (T0 + 1000000000)]),
      knownFeed\<lparr>Channel := (Channel knownFeed)\<lparr>Items := Items freshChannel\<rparr>,
                lastUpdateAt := 1526027319000000001\<rparr>,
      quiet)"
  by (simp add: eval_defs example_defs freshChannel_def)

text \<open>
  Claim C2.  Whenever \<open>Update\<close> returns an error, the feed is the one it was called on.
  When the call reaches the acquisition (the scan for the latest item has returned and
  the source is not empty) and acquisition or parsing fails with \<open>err\<close>, then \<open>Update\<close>
  logs \<open>err\<close> and returns it, with the feed untouched.
\<close>

theorem Update_failure_atomic:
  "(Update env rss w = (Returns (Inl err), rss', w') \<longrightarrow> rss' = rss) \<and>
   (latestItem rss = Returns latest \<and> source rss \<noteq> [] \<and>
    acquire env (source rss) (logTrace env ''rss.Update()'' w) = (Returns (Inl err), w2) \<longrightarrow>
      Update env rss w = (Returns (Inl err), rss, logErr env err w2))"
proof (intro conjI impI)
  assume "Update env rss w = (Returns (Inl err), rss', w')"
  then show "rss' = rss"
    by (auto simp: Update_def Let_def
        split: exec.splits if_splits prod.splits sum.splits option.splits)
next
  assume "latestItem rss = Returns latest \<and> source rss \<noteq> [] \<and>
    acquire env (source rss) (logTrace env ''rss.Update()'' w) = (Returns (Inl err), w2)"
  then show "Update env rss w = (Returns (Inl err), rss, logErr env err w2)"
    by (simp add: Update_def Let_def)
qed

theorem Update_failure_atomic_witness:
  "latestItem knownFeed = Returns (Some (datedItem ''a'' T0)) \<and> source knownFeed \<noteq> [] \<and>
   acquire (fileEnv ''other.xml'' ''<rss/>'' freshChannel) (source knownFeed)
     (logTrace (fileEnv ''other.xml'' ''<rss/>'' freshChannel) ''rss.Update()'' quiet) =
       (Returns (Inl ''no such file''), quiet\<lparr>logged := [''[ERROR] no such file'']\<rparr>) \<and>
   Update (fileEnv ''other.xml'' ''<rss/>'' freshChannel) knownFeed quiet =
     (Returns (Inl ''no such file''), knownFeed,
      quiet\<lparr>logged := [''[ERROR] no such file'', ''[ERROR] no such file'']\<rparr>)"
proof -
  have a: "acquire (fileEnv ''other.xml'' ''<rss/>'' freshChannel) (source knownFeed)
     (logTrace (fileEnv ''other.xml'' ''<rss/>'' freshChannel) ''rss.Update()'' quiet) =
       (Returns (Inl ''no such file''), quiet\<lparr>logged := [''[ERROR] no such file'']\<rparr>)"
    by (simp add: eval_defs example_defs freshChannel_def)
  have s: "source knownFeed \<noteq> []"
    by (simp add: knownFeed_def)
  have l: "logErr (fileEnv ''other.xml'' ''<rss/>'' freshChannel) ''no such file''
      (quiet\<lparr>logged := [''[ERROR] no such file'']\<rparr>) =
      quiet\<lparr>logged := [''[ERROR] no such file'', ''[ERROR] no such file'']\<rparr>"
    by (simp add: logErr_def fileEnv_def Lerror_def)
  from Update_failure_atomic [of "fileEnv ''other.xml'' ''<rss/>'' freshChannel" knownFeed quiet
      "''no such file''" knownFeed quiet "Some (datedItem ''a'' T0)"
      "quiet\<lparr>logged := [''[ERROR] no such file'']\<rparr>"]
    latestItem_knownFeed a s l
  show ?thesis by simp
qed

text \<open>
  Claim C3.  For a feed whose item sequence is empty and whose source is not empty,
  when the acquisition succeeds, \<open>Update\<close> returns no new items and no error.
\<close>

theorem Update_empty_prior:
  assumes "Items (Channel rss) = []" and "source rss \<noteq> []"
    and "acquire env (source rss) (logTrace env ''rss.Update()'' w) = (Returns (Inr rss2), w2)"
  shows "fst (Update env rss w) = Returns (Inr [])"
proof -
  from assms(1) have "latestItem rss = Returns None"
    by (simp add: latestItem_def)
  with assms(2,3) show ?thesis
    by (simp add: Update_acquired)
qed

theorem Update_empty_prior_witness:
  "Items (Channel emptyFeed) = [] \<and> source emptyFeed \<noteq> [] \<and>
   fst (acquire (fileEnv ''feed.xml'' ''<rss/>'' freshChannel) (source emptyFeed)
     (logTrace (fileEnv ''feed.xml'' ''<rss/>'' freshChannel) ''rss.Update()'' quiet)) =
     Returns (Inr \<lparr>Version = ''2.0'', Channel = freshChannel, origin = ''<rss/>'',
                    source = ''feed.xml'', lastUpdateAt = 1526027319000000000,
                    rssUpdateNotifiers = []\<rparr>) \<and>
   fst (Update (fileEnv ''feed.xml'' ''<rss/>'' freshChannel) emptyFeed quiet) = Returns (Inr [])"
proof -
  have a: "acquire (fileEnv ''feed.xml'' ''<rss/>'' freshChannel) (source emptyFeed)
     (logTrace (fileEnv ''feed.xml'' ''<rss/>'' freshChannel) ''rss.Update()'' quiet) =
     (Returns (Inr \<lparr>Version = ''2.0'', Channel = freshChannel, origin = ''<rss/>'',
                    source = ''feed.xml'', lastUpdateAt = 1526027319000000000,
                    rssUpdateNotifiers = []\<rparr>), quiet)"
    by (simp add: eval_defs example_defs emptyFeed_def freshChannel_def)
  have i: "Items (Channel emptyFeed) = []" and s: "source emptyFeed \<noteq> []"
    by (simp_all add: emptyFeed_def knownFeed_def zeroRSSChannel_def)
  from Update_empty_prior [OF i s a] a i s show ?thesis
    by simp
qed

text \<open>
  Claim C5, as the code has it.  On a successful \<open>Update\<close> the item sequence is the
  freshly parsed one and the last-update timestamp is the reading of the clock taken
  after the acquisition; every other field of the feed, the other fields of the
  channel included, is the one the feed had before.
\<close>

theorem Update_replaces_items_only:
  assumes "Update env rss w = (Returns (Inr newItems), rss', w')"
  shows "\<exists>rss2 w2. acquire env (source rss) (logTrace env ''rss.Update()'' w) =
             (Returns (Inr rss2), w2) \<and>
           rss' = rss\<lparr>Channel := (Channel rss)\<lparr>Items := Items (Channel rss2)\<rparr>,
                     lastUpdateAt := Now env 1\<rparr>"
  using assms
  by (auto simp: Update_def Let_def
      split: exec.splits if_splits prod.splits sum.splits option.splits)

theorem Update_replaces_items_only_witness:
  "Update (fileEnv ''feed.xml'' ''<rss/>'' freshChannel) knownFeed quiet =
     (Returns (Inr [datedItem ''c'' (T0 + 1000000000)]),
      knownFeed\<lparr>Channel := (Channel knownFeed)\<lparr>Items := Items freshChannel\<rparr>,
                lastUpdateAt := 1526027319000000001\<rparr>,
      quiet) \<and>
   fst (acquire (fileEnv ''feed.xml'' ''<rss/>'' freshChannel) (source knownFeed)
     (logTrace (fileEnv ''feed.xml'' ''<rss/>'' freshChannel) ''rss.Update()'' quiet)) =
     Returns (Inr \<lparr>Version = ''2.0'', Channel = freshChannel, origin = ''<rss/>'',
                    source = ''feed.xml'', lastUpdateAt = 1526027319000000000,
                    rssUpdateNotifiers = []\<rparr>) \<and>
   Now (fileEnv ''feed.xml'' ''<rss/>'' freshChannel) 1 = 1526027319000000001"
proof -
  have "fst (acquire (fileEnv ''feed.xml'' ''<rss/>'' freshChannel) (source knownFeed)
     (logTrace (fileEnv ''feed.xml'' ''<rss/>'' freshChannel) ''rss.Update()'' quiet)) =
     Returns (Inr \<lparr>Version = ''2.0'', Channel = freshChannel, origin = ''<rss/>'',
                    source = ''feed.xml'', lastUpdateAt = 1526027319000000000,
                    rssUpdateNotifiers = []\<rparr>)"
    by (simp add: eval_defs example_defs freshChannel_def)
  moreover have "Now (fileEnv ''feed.xml'' ''<rss/>'' freshChannel) 1 = 1526027319000000001"
    by (simp add: fileEnv_def)
  ultimately show ?thesis
    using Update_replaces_items_only [OF Update_fresh] Update_fresh by simp
qed

text \<open>
  Claim C5 as stated fails for the channel's metadata: the fresh parse carries the title
  \<open>New title\<close> and a TTL of 60, and after the successful \<open>Update\<close> the feed still has
  the title \<open>Old title\<close> and the TTL 20.
\<close>

theorem Update_keeps_metadata_counterexample:
  "fst (Update (fileEnv ''feed.xml'' ''<rss/>'' freshChannel) knownFeed quiet) =
     Returns (Inr [datedItem ''c'' (T0 + 1000000000)]) \<and>
   Title freshChannel = ''New title'' \<and> TTL freshChannel = 60 \<and>
   Title (Channel (fst (snd (Update (fileEnv ''feed.xml'' ''<rss/>'' freshChannel) knownFeed quiet)))) =
     ''Old title'' \<and>
   TTL (Channel (fst (snd (Update (fileEnv ''feed.xml'' ''<rss/>'' freshChannel) knownFeed quiet)))) = 20"
  by (simp add: Update_fresh) (simp add: freshChannel_def knownFeed_def)

text \<open>
  Claim C9.  For a feed whose source is not empty but shorter than four bytes,
  \<open>Update\<close> never returns: it panics, and once the scan for the latest item has
  returned the panic is the one of the slice expression \<open>rss.source[:4]\<close>.  The
  package-level \<open>Serve\<close> panics in \<open>source[:4]\<close> for every source shorter than four
  bytes, the empty one included.
\<close>

theorem short_source_panics:
  "(source rss \<noteq> [] \<and> length (source rss) < 4 \<longrightarrow>
      (\<exists>p. fst (Update env rss w) = Panics p) \<and>
      (\<forall>latest. latestItem rss = Returns latest \<longrightarrow>
         fst (Update env rss w) = Panics SliceBoundsOutOfRange)) \<and>
   (length src < 4 \<longrightarrow> fst (Serve env src f ttl w es) = Crashed SliceBoundsOutOfRange)"
  by (cases "latestItem rss") (simp_all add: Update_def Let_def acquire_def Serve_def)

theorem short_source_panics_witness:
  "source (knownFeed\<lparr>source := ''rss''\<rparr>) \<noteq> [] \<and>
   length (source (knownFeed\<lparr>source := ''rss''\<rparr>)) < 4 \<and>
   latestItem (knownFeed\<lparr>source := ''rss''\<rparr>) = Returns (Some (datedItem ''a'' T0)) \<and>
   fst (Update (fileEnv ''rss'' ''<rss/>'' freshChannel) (knownFeed\<lparr>source := ''rss''\<rparr>) quiet) =
     Panics SliceBoundsOutOfRange \<and>
   length ([] :: string) < 4 \<and>
   fst (Serve (fileEnv ''rss'' ''<rss/>'' freshChannel) [] 7 0 quiet []) =
     Crashed SliceBoundsOutOfRange"
proof -
  have l: "latestItem (knownFeed\<lparr>source := ''rss''\<rparr>) = Returns (Some (datedItem ''a'' T0))"
    by (simp add: latestItem_def knownFeed_def)
  have s: "source (knownFeed\<lparr>source := ''rss''\<rparr>) \<noteq> [] \<and>
      length (source (knownFeed\<lparr>source := ''rss''\<rparr>)) < 4"
    by simp
  from short_source_panics [of "knownFeed\<lparr>source := ''rss''\<rparr>"
      "fileEnv ''rss'' ''<rss/>'' freshChannel" quiet "[]" 7 0 "[]"] l s
  show ?thesis by simp
qed

section \<open>Properties of the polling scheduler\<close>

lemma Minute_sint: "sint Minute = 60000000000"
  by (simp add: Minute_def)

lemma minutes_no_overflow:
  fixes t :: "64 word"
  assumes "0 <s t" "sint t \<le> 153722867"
  shows "sint (t * Minute) = sint t * 60000000000"
proof -
  from assms have lo: "0 < sint t"
    by (simp add: word_sless_alt)
  have "sint (t * Minute) = signed_take_bit 63 (sint t * sint Minute)"
    by (simp add: sint_word_ariths)
  also have "\<dots> = sint t * 60000000000"
    using lo assms(2) by (simp add: Minute_sint signed_take_bit_int_eq_self)
  finally show ?thesis .
qed

text \<open>
  Claim C6.  The interval handed to the ticker: a caller-supplied \<open>ttl\<close> other than zero
  wins; otherwise a positive channel TTL, multiplied by \<open>time.Minute\<close> in 64-bit
  arithmetic, which is that many minutes in nanoseconds for every TTL up to 153722867
  (a declared TTL of 20 gives 20 minutes); otherwise \<open>DefaultTTL\<close>.
\<close>

theorem tickerInterval_order:
  "(ttl \<noteq> 0 \<longrightarrow> tickerInterval rss ttl = ttl) \<and>
   (ttl = 0 \<and> 0 <s TTL (Channel rss) \<longrightarrow>
      tickerInterval rss ttl = TTL (Channel rss) * Minute) \<and>
   (ttl = 0 \<and> 0 <s TTL (Channel rss) \<and> sint (TTL (Channel rss)) \<le> 153722867 \<longrightarrow>
      sint (tickerInterval rss ttl) = sint (TTL (Channel rss)) * sint Minute) \<and>
   (ttl = 0 \<and> TTL (Channel rss) = 20 \<longrightarrow> tickerInterval rss ttl = 20 * Minute) \<and>
   (ttl = 0 \<and> \<not> 0 <s TTL (Channel rss) \<longrightarrow> tickerInterval rss ttl = DefaultTTL)"
  by (simp add: tickerInterval_def minutes_no_overflow Minute_sint word_sless_alt)

theorem tickerInterval_order_witness:
  "tickerInterval knownFeed 4000000000 = 4000000000 \<and>
   TTL (Channel knownFeed) = 20 \<and> tickerInterval knownFeed 0 = 20 * Minute \<and>
   sint (tickerInterval knownFeed 0) = 1200000000000 \<and>
   \<not> 0 <s TTL (Channel emptyFeed) \<and> tickerInterval emptyFeed 0 = DefaultTTL"
proof -
  have a: "TTL (Channel knownFeed) = 20" "TTL (Channel emptyFeed) = 0"
    by (simp_all add: knownFeed_def emptyFeed_def zeroRSSChannel_def)
  have b: "(0::64 word) <s 20" "sint (20::64 word) \<le> 153722867" "\<not> (0::64 word) <s 0"
    "(4000000000::64 word) \<noteq> 0"
    by (simp_all add: word_sless_alt)
  from tickerInterval_order [of 4000000000 knownFeed] tickerInterval_order [of 0 knownFeed]
    tickerInterval_order [of 0 emptyFeed] a b
  show ?thesis by (simp add: Minute_def)
qed

lemma serveLoop_append:
  assumes "serveLoop rss w es1 = (Serving, rss1, w1, rest)"
  shows "serveLoop rss w (es1 @ es2) = serveLoop rss1 w1 es2"
  using assms
proof (induction rss w es1 rule: serveLoop.induct)
  case (1 rss w)
  then show ?case by simp
next
  case (2 rss w es)
  then show ?case by simp
next
  case (3 rss w env es)
  then show ?case
    by (auto split: prod.splits exec.splits sum.splits)
qed

text \<open>
  Claim C7.  A polling loop that is serving after the events \<open>es1\<close> and whose next tick
  runs an \<open>Update\<close> that fails with \<open>err\<close> hands \<open>err\<close> to \<open>logErr\<close> (which emits the line
  at every log level up to \<open>Lerror\<close>, the default) and returns \<open>err\<close>; the feed is the one
  before the tick, and the events after the tick are never received.
\<close>

theorem Serve_update_failure:
  assumes "RSS_Serve rss ttl w es1 = (Serving, rss1, w1, rest)"
    and "Update env rss1 w1 = (Returns (Inl err), rss2, w2)"
  shows "RSS_Serve rss ttl w (es1 @ Tick env # es2) =
           (Stopped (Some err), rss1, logErr env err w2, es2) \<and>
         (LogLevel env \<le> Lerror \<longrightarrow>
            logged (logErr env err w2) = logged w2 @ [''[ERROR] '' @ err])"
proof -
  from assms(1) have pos: "\<not> tickerInterval rss ttl \<le>s 0"
    and loop: "serveLoop rss w es1 = (Serving, rss1, w1, rest)"
    by (auto simp: RSS_Serve_def split: if_splits)
  from assms(2) have same: "rss2 = rss1"
    by (auto simp: Update_def Let_def
        split: exec.splits if_splits prod.splits sum.splits option.splits)
  have "serveLoop rss w (es1 @ Tick env # es2) = serveLoop rss1 w1 (Tick env # es2)"
    using loop by (rule serveLoop_append)
  with assms(2) same pos show ?thesis
    by (simp add: RSS_Serve_def logErr_def)
qed

lemma spawned_log [simp]:
  "spawned (logErr env err w) = spawned w"
  "spawned (logTrace env v w) = spawned w"
  "spawned (logDebugln env v err w) = spawned w"
  by (simp_all add: logErr_def logTrace_def logDebugln_def)

lemma Feed_effects:
  assumes "Feed env b w = (r, w')"
  shows "spawned w' = spawned w" and "r = Inr rss \<Longrightarrow> rssUpdateNotifiers rss = []"
  using assms by (auto simp: Feed_def Let_def split: sum.splits prod.splits)

lemma FeedFromFile_effects:
  assumes "FeedFromFile env name w = (r, w')"
  shows "spawned w' = spawned w" and "r = Inr rss \<Longrightarrow> rssUpdateNotifiers rss = []"
  using assms
  by (auto simp: FeedFromFile_def split: sum.splits prod.splits dest: Feed_effects)

lemma FeedFromURL_effects:
  assumes "FeedFromURL env url w = (r, w')"
  shows "spawned w' = spawned w" and "r = Inr rss \<Longrightarrow> rssUpdateNotifiers rss = []"
  using assms
  by (auto simp: FeedFromURL_def split: sum.splits prod.splits dest: Feed_effects)

lemma acquire_effects:
  assumes "acquire env src w = (r, w')"
  shows "spawned w' = spawned w" and "r = Returns (Inr rss) \<Longrightarrow> rssUpdateNotifiers rss = []"
  using assms
  by (auto simp: acquire_def split: if_splits prod.splits
      dest: FeedFromFile_effects FeedFromURL_effects)

lemma Update_spawned:
  assumes "Update env rss w = (r, rss', w')"
  shows "spawned w' = spawned w"
  using assms
  by (auto simp: Update_def Let_def
      split: exec.splits if_splits prod.splits sum.splits option.splits
      dest: acquire_effects(1))

lemma serveLoop_spawned:
  "\<exists>later. spawned (fst (snd (snd (serveLoop rss w es)))) = spawned w @ later"
proof (induction rss w es rule: serveLoop.induct)
  case (1 rss w)
  then show ?case by simp
next
  case (2 rss w es)
  then show ?case by simp
next
  case (3 rss w env es)
  obtain r rss' w' where u: "Update env rss w = (r, rss', w')"
    by (cases "Update env rss w") auto
  then have sp: "spawned w' = spawned w"
    by (rule Update_spawned)
  show ?case
  proof (cases r)
    case (Panics p)
    with u sp show ?thesis by simp
  next
    case (Returns res)
    show ?thesis
    proof (cases res)
      case (Inl err)
      with u sp Returns show ?thesis by simp
    next
      case (Inr newItems)
      from "3.IH" [OF u [symmetric] Returns Inr refl]
      obtain later where
        "spawned (fst (snd (snd (serveLoop rss'
            (if newItems \<noteq> [] then dispatch rss' newItems w' else w') es)))) =
         spawned (if newItems \<noteq> [] then dispatch rss' newItems w' else w') @ later"
        by blast
      with u sp Returns Inr show ?thesis
        by (simp add: dispatch_def)
    qed
  qed
qed

lemma RSS_Serve_spawned:
  "\<exists>later. spawned (fst (snd (snd (RSS_Serve rss ttl w es)))) = spawned w @ later"
  using serveLoop_spawned [of rss w es] by (simp add: RSS_Serve_def)

text \<open>
  Claim C10.  After a successful initial acquisition the package-level \<open>Serve\<close> registers
  \<open>f\<close> and, when the initial item sequence is not empty, starts \<open>f\<close> once on the entire
  sequence; this is the state before any event is received, and in every run it is the
  first goroutine that \<open>Serve\<close> starts.
\<close>

theorem Serve_initial_dispatch:
  assumes "acquire env src w = (Returns (Inr rss0), w1)"
  shows "Serve env src f ttl w [] =
           (if tickerInterval rss0 ttl \<le>s 0 then Crashed NonPositiveInterval else Serving,
            Some (rss0\<lparr>rssUpdateNotifiers := [f]\<rparr>),
            w1\<lparr>spawned := spawned w @
                  (if Items (Channel rss0) = [] then [] else [(f, Items (Channel rss0))])\<rparr>,
            []) \<and>
         (\<exists>later. spawned (fst (snd (snd (Serve env src f ttl w es)))) =
            spawned w @
            (if Items (Channel rss0) = [] then [] else [(f, Items (Channel rss0))]) @ later)"
proof -
  from assms have sp: "spawned w1 = spawned w" and nf: "rssUpdateNotifiers rss0 = []"
    by (auto dest: acquire_effects)
  let ?rss = "RegisterRSSUpdateNotifier rss0 f"
  let ?w2 = "if Items (Channel ?rss) \<noteq> []
             then w1\<lparr>spawned := spawned w1 @ [(f, Items (Channel ?rss))]\<rparr> else w1"
  have r: "?rss = rss0\<lparr>rssUpdateNotifiers := [f]\<rparr>"
    by (simp add: RegisterRSSUpdateNotifier_def nf)
  have ti: "tickerInterval ?rss ttl = tickerInterval rss0 ttl"
    by (simp add: tickerInterval_def RegisterRSSUpdateNotifier_def)
  have first: "Serve env src f ttl w [] =
           (if tickerInterval rss0 ttl \<le>s 0 then Crashed NonPositiveInterval else Serving,
            Some (rss0\<lparr>rssUpdateNotifiers := [f]\<rparr>),
            w1\<lparr>spawned := spawned w @
                  (if Items (Channel rss0) = [] then [] else [(f, Items (Channel rss0))])\<rparr>,
            [])"
    using assms sp r ti by (simp add: Serve_def RSS_Serve_def Let_def)
  have "fst (snd (snd (Serve env src f ttl w es))) = fst (snd (snd (RSS_Serve ?rss ttl ?w2 es)))"
    using assms by (simp add: Serve_def Let_def split: prod.splits)
  moreover obtain later where
    "spawned (fst (snd (snd (RSS_Serve ?rss ttl ?w2 es)))) = spawned ?w2 @ later"
    using RSS_Serve_spawned by blast
  moreover have "spawned ?w2 =
      spawned w @ (if Items (Channel rss0) = [] then [] else [(f, Items (Channel rss0))])"
    using sp by (simp add: RegisterRSSUpdateNotifier_def)
  ultimately have "spawned (fst (snd (snd (Serve env src f ttl w es)))) =
      spawned w @ (if Items (Channel rss0) = [] then [] else [(f, Items (Channel rss0))]) @ later"
    by simp
  with first show ?thesis
    by blast
qed

lemma RSS_Serve_first_tick:
  "RSS_Serve knownFeed 0 quiet [Tick (fileEnv ''feed.xml'' ''<rss/>'' freshChannel)] =
     (Serving, servedFeed, quiet\<lparr>spawned := [(7, [datedItem ''c'' (T0 + 1000000000)])]\<rparr>, [])"
proof -
  have "\<not> tickerInterval knownFeed 0 \<le>s 0"
    by (simp add: tickerInterval_def knownFeed_def Minute_def word_sle_eq word_sless_alt)
  moreover have "rssUpdateNotifiers knownFeed = [7]" "spawned quiet = []"
    by (simp_all add: knownFeed_def quiet_def)
  ultimately show ?thesis
    by (simp add: RSS_Serve_def Update_fresh dispatch_def servedFeed_def)
qed

lemma Update_file_gone:
  "Update (fileEnv ''other.xml'' ''<rss/>'' freshChannel) servedFeed
      (quiet\<lparr>spawned := [(7, [datedItem ''c'' (T0 + 1000000000)])]\<rparr>) =
     (Returns (Inl ''no such file''), servedFeed,
      \<lparr>logged = [''[ERROR] no such file'', ''[ERROR] no such file''],
       spawned = [(7, [datedItem ''c'' (T0 + 1000000000)])]\<rparr>)"
  by (simp add: eval_defs example_defs freshChannel_def servedFeed_def)

theorem Serve_update_failure_witness:
  "RSS_Serve knownFeed 0 quiet [Tick (fileEnv ''feed.xml'' ''<rss/>'' freshChannel)] =
     (Serving, servedFeed, quiet\<lparr>spawned := [(7, [datedItem ''c'' (T0 + 1000000000)])]\<rparr>, []) \<and>
   fst (Update (fileEnv ''other.xml'' ''<rss/>'' freshChannel) servedFeed
      (quiet\<lparr>spawned := [(7, [datedItem ''c'' (T0 + 1000000000)])]\<rparr>)) =
     Returns (Inl ''no such file'') \<and>
   LogLevel (fileEnv ''other.xml'' ''<rss/>'' freshChannel) \<le> Lerror \<and>
   RSS_Serve knownFeed 0 quiet
     ([Tick (fileEnv ''feed.xml'' ''<rss/>'' freshChannel)] @
      Tick (fileEnv ''other.xml'' ''<rss/>'' freshChannel) #
      [Tick (fileEnv ''feed.xml'' ''<rss/>'' freshChannel)]) =
     (Stopped (Some ''no such file''), servedFeed,
      \<lparr>logged = [''[ERROR] no such file'', ''[ERROR] no such file'', ''[ERROR] no such file''],
       spawned = [(7, [datedItem ''c'' (T0 + 1000000000)])]\<rparr>,
      [Tick (fileEnv ''feed.xml'' ''<rss/>'' freshChannel)])"
proof -
  have l: "LogLevel (fileEnv ''other.xml'' ''<rss/>'' freshChannel) \<le> Lerror"
    by (simp add: fileEnv_def)
  from Serve_update_failure [OF RSS_Serve_first_tick Update_file_gone,
      of "[Tick (fileEnv ''feed.xml'' ''<rss/>'' freshChannel)]"] l
    RSS_Serve_first_tick Update_file_gone
  show ?thesis
    by (simp add: logErr_def)
qed

lemma acquire_freshFeed:
  "acquire (fileEnv ''feed.xml'' ''<rss/>'' freshChannel) ''feed.xml'' quiet =
     (Returns (Inr freshFeed), quiet)"
  by (simp add: eval_defs example_defs freshChannel_def freshFeed_def)

theorem Serve_initial_dispatch_witness:
  "acquire (fileEnv ''feed.xml'' ''<rss/>'' freshChannel) ''feed.xml'' quiet =
     (Returns (Inr freshFeed), quiet) \<and>
   Serve (fileEnv ''feed.xml'' ''<rss/>'' freshChannel) ''feed.xml'' 7 0 quiet [] =
     (Serving, Some (freshFeed\<lparr>rssUpdateNotifiers := [7]\<rparr>),
      quiet\<lparr>spawned := [(7, Items freshChannel)]\<rparr>, [])"
proof -
  have "\<not> tickerInterval freshFeed 0 \<le>s 0"
    by (simp add: tickerInterval_def freshFeed_def freshChannel_def Minute_def word_sle_eq
        word_sless_alt)
  moreover have "Items (Channel freshFeed) = Items freshChannel" "Items freshChannel \<noteq> []"
    "spawned quiet = []"
    by (simp_all add: freshFeed_def freshChannel_def quiet_def)
  ultimately show ?thesis
    using Serve_initial_dispatch [OF acquire_freshFeed, of 7 0 "[]"] acquire_freshFeed
    by simp
qed

section \<open>Properties of the date normalizer\<close>

lemma literal_zone_layout:
  "time_Parse lookupName ''Mon, 02 Jan 2006 15:04:05 MST'' ''Fri, 11 May 2018 16:28:39 +0800'' =
     Inl (''parsing time Fri, 11 May 2018 16:28:39 +0800 as Mon, 02 Jan 2006 15:04:05 MST: cannot parse'')"
  by (simp add: time_Parse_def layoutChunks_def shortDayNames_def shortMonthNames_def match1_def
      getnum_def isDigit_def digit_def cutspace_def decimal_def parseTimeZone_def
      parseSignedOffset_def errBad_def)

lemma literal_offset_layout:
  "time_Parse lookupName ''Mon, 02 Jan 2006 15:04:05 -0700'' ''Fri, 11 May 2018 16:28:39 +0800'' =
     Inr 1526027319000000000"
  by (simp add: time_Parse_def layoutChunks_def shortDayNames_def shortMonthNames_def match1_def
      getnum_def isDigit_def digit_def cutspace_def decimal_def Date_def daysSinceEpoch_def
      daysIn_def isLeap_def Second_def)

lemma garbage_layouts:
  "time_Parse lookupName ''Mon, 02 Jan 2006 15:04:05 MST'' ''yesterday'' =
     Inl (''parsing time yesterday as Mon, 02 Jan 2006 15:04:05 MST: cannot parse'')"
  "time_Parse lookupName ''Mon, 02 Jan 2006 15:04:05 -0700'' ''yesterday'' =
     Inl (''parsing time yesterday as Mon, 02 Jan 2006 15:04:05 -0700: cannot parse'')"
  by (simp_all add: time_Parse_def layoutChunks_def shortDayNames_def match1_def errBad_def)

text \<open>
  Claim C8.  The layouts are tried in the order of \<open>rfc822layout\<close>, first the one with
  a zone abbreviation and then the one with a numeric offset; the result is the instant
  of the first layout that parses, with no error, and an error is returned exactly when
  every layout fails (then it is the error of the last layout, and \<open>*r\<close> is unchanged).
  With the model of \<open>time.Parse\<close> the literal \<open>Fri, 11 May 2018 16:28:39 +0800\<close> gives
  the instant 2018-05-11T08:28:39Z.
\<close>

theorem UnmarshalXML_first_layout:
  "rfc822layout = [''Mon, 02 Jan 2006 15:04:05 MST'', ''Mon, 02 Jan 2006 15:04:05 -0700''] \<and>
   UnmarshalXML parse v r =
     (case find (\<lambda>layout. \<not> isl (parse layout v)) rfc822layout of
        Some layout \<Rightarrow> (None, projr (parse layout v))
      | None \<Rightarrow> (Some (projl (parse (last rfc822layout) v)), r)) \<and>
   (fst (UnmarshalXML parse v r) \<noteq> None \<longleftrightarrow>
      (\<forall>layout \<in> set rfc822layout. isl (parse layout v))) \<and>
   UnmarshalXML (time_Parse lookupName) ''Fri, 11 May 2018 16:28:39 +0800'' r =
     (None, Date 2018 5 11 8 28 39) \<and>
   Date 2018 5 11 8 28 39 = 1526027319 * Second"
proof -
  have d: "Date 2018 5 11 8 28 39 = 1526027319 * Second"
    by (simp add: Date_def daysSinceEpoch_def Second_def)
  have "UnmarshalXML (time_Parse lookupName) ''Fri, 11 May 2018 16:28:39 +0800'' r =
      (None, 1526027319000000000)"
    by (simp add: UnmarshalXML_def rfc822layout_def literal_zone_layout literal_offset_layout)
  with d have lit: "UnmarshalXML (time_Parse lookupName) ''Fri, 11 May 2018 16:28:39 +0800'' r =
      (None, Date 2018 5 11 8 28 39)"
    by (simp add: Second_def)
  have gen: "UnmarshalXML parse v r =
     (case find (\<lambda>layout. \<not> isl (parse layout v)) rfc822layout of
        Some layout \<Rightarrow> (None, projr (parse layout v))
      | None \<Rightarrow> (Some (projl (parse (last rfc822layout) v)), r))"
    by (simp add: UnmarshalXML_def rfc822layout_def split: sum.splits)
  have fails: "fst (UnmarshalXML parse v r) \<noteq> None \<longleftrightarrow>
      (\<forall>layout \<in> set rfc822layout. isl (parse layout v))"
    by (simp add: UnmarshalXML_def rfc822layout_def split: sum.splits)
  from d lit gen fails show ?thesis
    by (simp add: rfc822layout_def)
qed

theorem UnmarshalXML_first_layout_witness:
  "list_all (\<lambda>layout. isl (time_Parse (\<lambda>name t. None) layout ''yesterday'')) rfc822layout \<and>
   UnmarshalXML (time_Parse (\<lambda>name t. None)) ''yesterday'' 0 =
     (Some ''parsing time yesterday as Mon, 02 Jan 2006 15:04:05 -0700: cannot parse'', 0) \<and>
   find (\<lambda>layout. \<not> isl (time_Parse (\<lambda>name t. None) layout ''Fri, 11 May 2018 16:28:39 +0800''))
     rfc822layout = Some ''Mon, 02 Jan 2006 15:04:05 -0700'' \<and>
   UnmarshalXML (time_Parse (\<lambda>name t. None)) ''Fri, 11 May 2018 16:28:39 +0800'' 0 =
     (None, 1526027319000000000)"
proof -
  have a: "list_all (\<lambda>layout. isl (time_Parse (\<lambda>name t. None) layout ''yesterday'')) rfc822layout"
    by (simp add: rfc822layout_def garbage_layouts)
  have b: "find (\<lambda>layout. \<not> isl (time_Parse (\<lambda>name t. None) layout ''Fri, 11 May 2018 16:28:39 +0800''))
     rfc822layout = Some ''Mon, 02 Jan 2006 15:04:05 -0700''"
    by (simp add: rfc822layout_def literal_zone_layout literal_offset_layout)
  have c: "find (\<lambda>layout. \<not> isl (time_Parse (\<lambda>name t. None) layout ''yesterday'')) rfc822layout = None"
    by (simp add: rfc822layout_def garbage_layouts)
  note th = UnmarshalXML_first_layout [of "time_Parse (\<lambda>name t. None)" "''yesterday''" 0
      "\<lambda>name t. None"]
  from th have "UnmarshalXML (time_Parse (\<lambda>name t. None)) ''yesterday'' 0 =
     (case find (\<lambda>layout. \<not> isl (time_Parse (\<lambda>name t. None) layout ''yesterday'')) rfc822layout of
        Some layout \<Rightarrow> (None, projr (time_Parse (\<lambda>name t. None) layout ''yesterday''))
      | None \<Rightarrow> (Some (projl (time_Parse (\<lambda>name t. None) (last rfc822layout) ''yesterday'')), 0))"
    by blast
  with c have "UnmarshalXML (time_Parse (\<lambda>name t. None)) ''yesterday'' 0 =
      (Some (projl (time_Parse (\<lambda>name t. None) (last rfc822layout) ''yesterday'')), 0)"
    by simp
  then have y: "UnmarshalXML (time_Parse (\<lambda>name t. None)) ''yesterday'' 0 =
      (Some ''parsing time yesterday as Mon, 02 Jan 2006 15:04:05 -0700: cannot parse'', 0)"
    by (simp add: rfc822layout_def garbage_layouts)
  from th have "UnmarshalXML (time_Parse (\<lambda>name t. None)) ''Fri, 11 May 2018 16:28:39 +0800'' 0 =
      (None, Date 2018 5 11 8 28 39)"
    and "Date 2018 5 11 8 28 39 = 1526027319 * Second"
    by blast+
  then have l: "UnmarshalXML (time_Parse (\<lambda>name t. None)) ''Fri, 11 May 2018 16:28:39 +0800'' 0 =
      (None, 1526027319000000000)"
    by (simp add: Second_def)
  from a b y l show ?thesis
    by blast
qed

section \<open>Properties of the earlier revision\<close>

text \<open>
  The earlier \<open>Update\<close> leaves the feed as it is on every path, returns the error of a
  failed acquisition like the later one, and panics on a source shorter than four bytes
  like the later one; on a feed without items it panics in \<open>latestItem\<close>, where the
  later revision returns no new items.
\<close>

lemma Update_old_feed_unchanged: "fst (snd (Update_old env rss w)) = rss"
  by (simp add: Update_old_def Let_def split: exec.splits prod.splits sum.splits)

lemma Update_old_failure:
  assumes "latestItem_old rss = Returns latest" and "source rss \<noteq> []"
    and "acquire env (source rss) (logTrace env ''rss.Update()'' w) = (Returns (Inl err), w2)"
  shows "Update_old env rss w = (Returns (Inl err), rss, logErr env err w2)"
  using assms by (simp add: Update_old_def Let_def)

lemma Update_old_short_source:
  assumes "latestItem_old rss = Returns latest" and "source rss \<noteq> []"
    and "length (source rss) < 4"
  shows "fst (Update_old env rss w) = Panics SliceBoundsOutOfRange"
  using assms by (simp add: Update_old_def Let_def acquire_def)

lemma Update_old_no_items:
  assumes "Items (Channel rss) = []"
  shows "fst (Update_old env rss w) = Panics IndexOutOfRange"
  using assms by (simp add: Update_old_def latestItem_old_def Let_def)

end
